theory Spec2Isabelle
  imports Complex_Main "HOL-Library.Log_Nat"
begin

section \<open>The position lifecycle of pump\_fun\_bot.py\<close>

text \<open>
  The development embeds \<^verbatim>\<open>send_email\<close>, \<^verbatim>\<open>time_since_launch\<close>, \<^verbatim>\<open>buy_token\<close>,
  \<^verbatim>\<open>sell_token\<close>, \<^verbatim>\<open>monitor_price\<close> and the body of the loop of
  \<^verbatim>\<open>monitor_and_trade\<close>.

  Conventions of the embedding:
  \<^item> The global dictionary \<^verbatim>\<open>open_positions\<close> is a map from addresses to positions, held
    in an explicit state that every function takes and returns.
  \<^item> What the functions do to the outside world is appended to a trace held in the same
    state: a line written to the logger (with its level), a call of \<^verbatim>\<open>send_email\<close> (with
    its subject), and a call of \<^verbatim>\<open>solana_client.send_transaction\<close> (with the order).
  \<^item> The answers of the outside world are arguments: what the order book returns, what the
    wall clock reads, what the venue client answers, what the two screening services
    answer. A call that raises is the value \<open>Raises\<close> with the text of the exception.
  \<^item> An exception that leaves a function is a result \<open>Raises\<close> of that function.
  \<^item> A Python \<^verbatim>\<open>float\<close> is the real number it denotes, and every arithmetic operation
    on floats rounds its exact result to the nearest double, ties to even (\<open>fl\<close>).
    Infinities and NaN are not modelled.
  \<^item> A Python \<^verbatim>\<open>str\<close> that can reach the body of an e-mail is the list of its code
    points. The address of a token only ever reaches a message through \<^verbatim>\<open>repr\<close>, and is
    kept as a string of bytes.
  \<^item> A \<^verbatim>\<open>datetime\<close> is its number of microseconds since the epoch.
\<close>

subsection \<open>Floating point\<close>

text \<open>Rounding to an integer, a tie going to the even neighbour.\<close>

definition round_even :: "real \<Rightarrow> int" where
  "round_even x =
     (let n = \<lfloor>x\<rfloor>; r = x - of_int n
      in if r < 1 / 2 then n else if 1 / 2 < r then n + 1 else if even n then n else n + 1)"

definition pow2 :: "int \<Rightarrow> real" where
  "pow2 e = (if 0 \<le> e then 2 ^ nat e else 1 / 2 ^ nat (- e))"

text \<open>The exponent \<open>e\<close> with \<open>pow2 e \<le> \<bar>x\<bar> < pow2 (e + 1)\<close>, for \<open>x\<close> other than
  zero, computed on the integer part of \<open>\<bar>x\<bar>\<close> or of its inverse.\<close>

definition binade :: "real \<Rightarrow> int" where
  "binade x =
     (if 1 \<le> \<bar>x\<bar> then bitlen \<lfloor>\<bar>x\<bar>\<rfloor> - 1 else - bitlen (\<lceil>1 / \<bar>x\<bar>\<rceil> - 1))"

text \<open>
  The double nearest to \<open>x\<close>: 53 significant bits, and below \<open>pow2 (- 1022)\<close> the
  spacing \<open>pow2 (- 1074)\<close> of the subnormal range. No largest exponent.
\<close>

definition fl :: "real \<Rightarrow> real" where
  "fl x =
     (if x = 0 then 0
      else let e = max (binade x) (- 1022) - 52
           in of_int (round_even (x / pow2 e)) * pow2 e)"

definition fmul :: "real \<Rightarrow> real \<Rightarrow> real" where
  "fmul a b = fl (a * b)"

definition fdiv :: "real \<Rightarrow> real \<Rightarrow> real" where
  "fdiv a b = fl (a / b)"

definition fsub :: "real \<Rightarrow> real \<Rightarrow> real" where
  "fsub a b = fl (a - b)"

subsection \<open>Strings\<close>

type_synonym pystr = "nat list"

definition ascii :: "string \<Rightarrow> pystr" where
  "ascii cs = map of_char cs"

text \<open>
  \<^verbatim>\<open>MIMEText(body, 'plain')\<close> encodes the body as UTF-8 with the \<^verbatim>\<open>surrogateescape\<close>
  handler: a surrogate code point outside U+DC80..U+DCFF raises \<^verbatim>\<open>UnicodeEncodeError\<close>.
\<close>

definition mime_char :: "nat \<Rightarrow> bool" where
  "mime_char c \<longleftrightarrow> c < 55296 \<or> (56448 \<le> c \<and> c \<le> 56575) \<or> 57343 < c"

definition encodable :: "pystr \<Rightarrow> bool" where
  "encodable s = list_all mime_char s"

text \<open>The texts of the exceptions the code raises itself. \<^verbatim>\<open>str\<close> of a
  \<^verbatim>\<open>UnicodeEncodeError\<close> and of a \<^verbatim>\<open>KeyError\<close> show the offending character or key
  through \<^verbatim>\<open>repr\<close>, in ASCII.\<close>

definition zero_division :: pystr where
  "zero_division = ascii ''float division by zero''"

definition unicode_error :: pystr where
  "unicode_error = ascii ''surrogates not allowed''"

definition key_error :: "string \<Rightarrow> pystr" where
  "key_error k = 39 # ascii k @ [39]"

subsection \<open>Data\<close>

datatype 'a outcome = Raises pystr | Returns 'a

type_synonym datetime = int

record token =
  name :: pystr
  contract_address :: string
  launch_time :: datetime
  market_cap :: real
  has_live_streams :: bool

record position =
  initial_price :: real
  amount :: real

datatype side = BUY | SELL

record order =
  side :: side
  limit_price :: real
  max_quantity :: real
  client_id :: int

datatype level = INFO | WARNING | ERROR

datatype event = Log level | Email pystr | Submit order

text \<open>
  A monitor task is either created and not yet run (\<^verbatim>\<open>asyncio.create_task\<close> only schedules
  the coroutine), or inside its loop, holding the \<^verbatim>\<open>initial_price\<close> and
  \<^verbatim>\<open>amount_tokens\<close> it read from the ledger on its first run.
\<close>

datatype task = Spawned token | Watching token real real

text \<open>\<open>halted\<close>: an exception has left \<^verbatim>\<open>monitor_and_trade\<close>, which ends
  \<^verbatim>\<open>run_until_complete\<close> and the process.\<close>

record state =
  open_positions :: "string \<rightharpoonup> position"
  trace :: "event list"
  tasks :: "task list"
  halted :: bool

text \<open>
  The venue as one call of \<^verbatim>\<open>buy_token\<close> or \<^verbatim>\<open>sell_token\<close> sees it.
  \<open>top_of_book\<close> is \<^verbatim>\<open>market.load_bids().top_bid()\<close> (or the asks): it raises, returns
  \<^verbatim>\<open>None\<close>, or returns an entry whose first component is the price.
  \<open>clock\<close> is \<^verbatim>\<open>time.time()\<close>.
  \<open>make_order\<close> is the construction of the transaction, \<^verbatim>\<open>Transaction()\<close>,
  \<^verbatim>\<open>market.make_order(...)\<close> and \<^verbatim>\<open>txn.add(order)\<close>: it raises or returns.
  \<open>send_transaction\<close> is \<^verbatim>\<open>solana_client.send_transaction(txn, keypair)\<close>: it raises, or
  returns a response whose \<^verbatim>\<open>'result'\<close> is present (\<open>Some\<close>) or absent.
\<close>

record venue =
  top_of_book :: "real option outcome"
  clock :: real
  make_order :: "unit outcome"
  send_transaction :: "pystr option outcome"

text \<open>What the screening of one candidate reads from outside: \<^verbatim>\<open>datetime.utcnow()\<close> and the
  results of \<^verbatim>\<open>check_rug_pull\<close> and \<^verbatim>\<open>check_social_media\<close>, both of which catch every
  exception and return a boolean.\<close>

record checks =
  utcnow :: datetime
  rug_pull_ok :: bool
  social_media_ok :: bool

subsection \<open>Constants and helpers\<close>

definition SLIPPAGE_PERCENT :: real where
  "SLIPPAGE_PERCENT = 1"

definition PROFIT_MULTIPLIER :: real where
  "PROFIT_MULTIPLIER = 5"

text \<open>\<^verbatim>\<open>int(x)\<close> on a float truncates towards zero.\<close>

definition py_int :: "real \<Rightarrow> int" where
  "py_int x = (if 0 \<le> x then \<lfloor>x\<rfloor> else \<lceil>x\<rceil>)"

definition emit :: "event list \<Rightarrow> state \<Rightarrow> state" where
  "emit es s = s\<lparr>trace := trace s @ es\<rparr>"

text \<open>\<^verbatim>\<open>diff.total_seconds() / 3600\<close>: the microseconds divided by a million, then by 3600,
  each division rounded.\<close>

definition time_since_launch :: "datetime \<Rightarrow> datetime \<Rightarrow> real" where
  "time_since_launch now lt = fdiv (fdiv (real_of_int (now - lt)) 1000000) 3600"

text \<open>The two lines under \<^verbatim>\<open># Calculate slippage\<close> of \<^verbatim>\<open>buy_token\<close>.\<close>

definition slippage_amount :: "real \<Rightarrow> real" where
  "slippage_amount quantity = fmul quantity (fdiv SLIPPAGE_PERCENT 100)"

definition min_quantity :: "real \<Rightarrow> real" where
  "min_quantity quantity = fsub quantity (slippage_amount quantity)"

text \<open>The two lines under \<^verbatim>\<open># Calculate slippage\<close> of \<^verbatim>\<open>sell_token\<close>.\<close>

definition min_sol :: "real \<Rightarrow> real \<Rightarrow> real" where
  "min_sol current_price amount_tokens =
     fsub (fmul current_price amount_tokens)
          (fmul current_price (slippage_amount amount_tokens))"

subsection \<open>send\_email\<close>

text \<open>
  \<open>email_set\<close>: \<^verbatim>\<open>EMAIL_USER\<close>, \<^verbatim>\<open>EMAIL_PASS\<close> and \<^verbatim>\<open>EMAIL_RECIPIENT\<close> are all set.
  Without them the function returns at once. With them it builds the message, outside
  its \<^verbatim>\<open>try\<close>, and \<^verbatim>\<open>MIMEText(body, 'plain')\<close> raises when the body cannot be
  encoded; what the SMTP session raises is caught inside. The body is ASCII text and
  formatted numbers around the strings \<open>parts\<close>. The event \<open>Email\<close> is the call.
\<close>

definition send_email :: "bool \<Rightarrow> pystr \<Rightarrow> pystr list \<Rightarrow> state \<Rightarrow> unit outcome \<times> state" where
  "send_email email_set subject parts s =
     (if \<not> email_set then (Returns (), emit [Email subject] s)
      else if list_all encodable parts then (Returns (), emit [Email subject] s)
      else (Raises unicode_error, emit [Email subject] s))"

subsection \<open>buy\_token\<close>

text \<open>The \<^verbatim>\<open>except Exception as e\<close> handler of \<^verbatim>\<open>buy_token\<close>; \<open>e\<close> is the text of the
  exception. What its \<^verbatim>\<open>send_email\<close> raises leaves \<^verbatim>\<open>buy_token\<close>.\<close>

definition buy_except :: "bool \<Rightarrow> token \<Rightarrow> pystr \<Rightarrow> state \<Rightarrow> bool outcome \<times> state" where
  "buy_except email_set t e s =
     (let r = send_email email_set (ascii ''Buy Failed for '' @ name t) [name t, e]
                (emit [Log ERROR] s)
      in case fst r of
           Raises e' \<Rightarrow> (Raises e', snd r)
         | Returns u \<Rightarrow> (Returns False, snd r))"

text \<open>
  \<^verbatim>\<open>amount_sol / price\<close> raises \<^verbatim>\<open>ZeroDivisionError\<close> when the price is zero, and
  \<^verbatim>\<open>response['result']\<close> raises \<^verbatim>\<open>KeyError\<close> when the response has no result.
  \<open>min_quantity\<close> only goes into the log line. The ledger is written before the e-mail
  is sent, inside the same \<^verbatim>\<open>try\<close>.
\<close>

definition buy_token :: "bool \<Rightarrow> venue \<Rightarrow> token \<Rightarrow> real \<Rightarrow> state \<Rightarrow> bool outcome \<times> state" where
  "buy_token email_set v t amount_sol s =
     (case top_of_book v of
        Raises e \<Rightarrow> buy_except email_set t e s
      | Returns None \<Rightarrow> (Returns False, emit [Log WARNING] s)
      | Returns (Some price) \<Rightarrow>
          if price = 0 then buy_except email_set t zero_division s
          else
            let quantity = fdiv amount_sol price;
                min_quantity' = min_quantity quantity;
                s1 = emit [Log INFO] s;
                ord = \<lparr>side = BUY, limit_price = price, max_quantity = quantity,
                       client_id = py_int (clock v)\<rparr>
            in case make_order v of
                 Raises e \<Rightarrow> buy_except email_set t e s1
               | Returns u \<Rightarrow>
                   (let s2 = emit [Submit ord] s1
                    in case send_transaction v of
                         Raises e \<Rightarrow> buy_except email_set t e s2
                       | Returns None \<Rightarrow> buy_except email_set t (key_error ''result'') s2
                       | Returns (Some signature) \<Rightarrow>
                           (let s3 = (emit [Log INFO] s2)
                                  \<lparr>open_positions := (open_positions s2)
                                     (contract_address t \<mapsto>
                                        \<lparr>initial_price = price, amount = quantity\<rparr>)\<rparr>;
                                r = send_email email_set (ascii ''Bought '' @ name t)
                                      [name t, signature] s3
                            in case fst r of
                                 Raises e \<Rightarrow> buy_except email_set t e (snd r)
                               | Returns u' \<Rightarrow> (Returns True, snd r))))"

subsection \<open>sell\_token\<close>

definition sell_except :: "bool \<Rightarrow> token \<Rightarrow> pystr \<Rightarrow> state \<Rightarrow> bool outcome \<times> state" where
  "sell_except email_set t e s =
     (let r = send_email email_set (ascii ''Sell Failed for '' @ name t) [name t, e]
                (emit [Log ERROR] s)
      in case fst r of
           Raises e' \<Rightarrow> (Raises e', snd r)
         | Returns u \<Rightarrow> (Returns False, snd r))"

text \<open>\<^verbatim>\<open>del open_positions[address]\<close> raises \<^verbatim>\<open>KeyError\<close> when the address is absent.\<close>

definition sell_token ::
  "bool \<Rightarrow> venue \<Rightarrow> token \<Rightarrow> real \<Rightarrow> real \<Rightarrow> state \<Rightarrow> bool outcome \<times> state" where
  "sell_token email_set v t initial_price' amount_tokens s =
     (let target_price = fmul initial_price' PROFIT_MULTIPLIER in
      case top_of_book v of
        Raises e \<Rightarrow> sell_except email_set t e s
      | Returns None \<Rightarrow> (Returns False, emit [Log WARNING] s)
      | Returns (Some current_price) \<Rightarrow>
          if current_price < target_price then (Returns False, emit [Log INFO] s)
          else
            let min_sol' = min_sol current_price amount_tokens;
                s1 = emit [Log INFO] s;
                ord = \<lparr>side = SELL, limit_price = current_price, max_quantity = amount_tokens,
                       client_id = py_int (clock v)\<rparr>
            in case make_order v of
                 Raises e \<Rightarrow> sell_except email_set t e s1
               | Returns u \<Rightarrow>
                   (let s2 = emit [Submit ord] s1
                    in case send_transaction v of
                         Raises e \<Rightarrow> sell_except email_set t e s2
                       | Returns None \<Rightarrow> sell_except email_set t (key_error ''result'') s2
                       | Returns (Some signature) \<Rightarrow>
                           (let s3 = emit [Log INFO] s2
                            in case open_positions s3 (contract_address t) of
                                 None \<Rightarrow>
                                   sell_except email_set t (key_error (contract_address t)) s3
                               | Some p \<Rightarrow>
                                   (let s4 = s3\<lparr>open_positions :=
                                               (open_positions s3)(contract_address t := None)\<rparr>;
                                        r = send_email email_set (ascii ''Sold '' @ name t)
                                              [name t, signature] s4
                                    in case fst r of
                                         Raises e \<Rightarrow> sell_except email_set t e (snd r)
                                       | Returns u' \<Rightarrow> (Returns True, snd r)))))"

subsection \<open>monitor\_price\<close>

text \<open>
  One pass through the body of \<^verbatim>\<open>while True\<close>, from waking up to the next
  \<^verbatim>\<open>asyncio.sleep\<close>, to the \<^verbatim>\<open>break\<close>, or to an exception that leaves the coroutine.
  \<open>Waits\<close>: the task sleeps and goes round again. \<open>Sold b\<close>: \<^verbatim>\<open>sell_token\<close> was awaited,
  returned \<open>b\<close>, and the loop was left; the code does not look at \<open>b\<close>. \<open>Crashed\<close>: the
  task ended with an exception nobody catches.
  The monitor reads the asks itself (\<open>asks\<close>); \<^verbatim>\<open>sell_token\<close> reads them again from its
  own venue argument.
\<close>

datatype tick = Waits | Sold bool | Crashed

text \<open>The \<^verbatim>\<open>except Exception as e\<close> handler inside the loop: the body of its e-mail holds
  only the text of the exception. After it the task sleeps and goes round again.\<close>

definition monitor_except :: "bool \<Rightarrow> token \<Rightarrow> pystr \<Rightarrow> state \<Rightarrow> tick \<times> state" where
  "monitor_except email_set t e s =
     (let r = send_email email_set (ascii ''Price Monitoring Error for '' @ name t) [e]
                (emit [Log ERROR] s)
      in case fst r of
           Raises e' \<Rightarrow> (Crashed, snd r)
         | Returns u \<Rightarrow> (Waits, snd r))"

definition monitor_iteration ::
  "bool \<Rightarrow> real option outcome \<Rightarrow> venue \<Rightarrow> token \<Rightarrow> real \<Rightarrow> real \<Rightarrow> state \<Rightarrow> tick \<times> state" where
  "monitor_iteration email_set asks v t initial_price' amount_tokens s =
     (case asks of
        Raises e \<Rightarrow> monitor_except email_set t e s
      | Returns None \<Rightarrow> (Waits, emit [Log WARNING] s)
      | Returns (Some current_price) \<Rightarrow>
          let s1 = emit [Log INFO] s in
          if current_price \<ge> fmul initial_price' PROFIT_MULTIPLIER then
            (let r = sell_token email_set v t initial_price' amount_tokens (emit [Log INFO] s1)
             in case fst r of
                  Raises e \<Rightarrow> monitor_except email_set t e (snd r)
                | Returns b \<Rightarrow> (Sold b, snd r))
          else (Waits, s1))"

text \<open>
  The first run of the task reads the position from the ledger, outside the
  \<^verbatim>\<open>try\<close>, and then enters the loop; later runs continue the loop.
\<close>

fun monitor_price ::
  "bool \<Rightarrow> real option outcome \<Rightarrow> venue \<Rightarrow> task \<Rightarrow> state \<Rightarrow> (tick \<times> task) \<times> state" where
  "monitor_price email_set asks v (Spawned t) s =
     (case open_positions s (contract_address t) of
        None \<Rightarrow> ((Crashed, Spawned t), s)
      | Some p \<Rightarrow>
          (let r = monitor_iteration email_set asks v t (initial_price p) (amount p)
                     (emit [Log INFO] s)
           in ((fst r, Watching t (initial_price p) (amount p)), snd r)))"
| "monitor_price email_set asks v (Watching t initial_price' amount_tokens) s =
     (let r = monitor_iteration email_set asks v t initial_price' amount_tokens s
      in ((fst r, Watching t initial_price' amount_tokens), snd r))"

subsection \<open>monitor\_and\_trade\<close>

text \<open>
  The body of \<^verbatim>\<open>for token in tokens\<close>. The result names the branch taken: one of the six
  \<^verbatim>\<open>continue\<close> statements, the call of \<^verbatim>\<open>buy_token\<close> with what it returned, or
  \<open>Aborted\<close> when \<^verbatim>\<open>buy_token\<close> raised. An exception leaves the \<^verbatim>\<open>for\<close> loop for the
  handler around it, which writes an error line and sends the "Bot Error" e-mail, whose
  body holds only the text of the exception; what that \<^verbatim>\<open>send_email\<close> raises leaves
  \<^verbatim>\<open>monitor_and_trade\<close>. The budget is the literal \<^verbatim>\<open>0.01\<close>.
\<close>

datatype skip = LaunchTime | MarketCap | LiveStreams | RugPull | SocialMedia | AlreadyHolding

datatype decision = Skipped skip | Traded bool | Aborted

definition trade_token :: "bool \<Rightarrow> checks \<Rightarrow> venue \<Rightarrow> token \<Rightarrow> state \<Rightarrow> decision \<times> state" where
  "trade_token email_set c v t s =
     (let age_hours = time_since_launch (utcnow c) (launch_time t) in
      if \<not> (5 \<le> age_hours \<and> age_hours \<le> 10) then (Skipped LaunchTime, emit [Log INFO] s)
      else if \<not> (5000 \<le> market_cap t \<and> market_cap t \<le> 10000)
        then (Skipped MarketCap, emit [Log INFO] s)
      else if has_live_streams t then (Skipped LiveStreams, emit [Log INFO] s)
      else if \<not> rug_pull_ok c then (Skipped RugPull, emit [Log INFO] s)
      else if \<not> social_media_ok c then (Skipped SocialMedia, emit [Log INFO] s)
      else if open_positions s (contract_address t) \<noteq> None
        then (Skipped AlreadyHolding, emit [Log INFO] s)
      else
        let amount_sol = fl (1 / 100);
            r = buy_token email_set v t amount_sol s
        in case fst r of
             Returns buy_success \<Rightarrow>
               if buy_success
               then (Traded True, (snd r)\<lparr>tasks := tasks (snd r) @ [Spawned t]\<rparr>)
               else (Traded False, snd r)
           | Raises e \<Rightarrow>
               (let m = send_email email_set (ascii ''Bot Error'') [e] (emit [Log ERROR] (snd r))
                in case fst m of
                     Raises e' \<Rightarrow> (Aborted, (snd m)\<lparr>halted := True\<rparr>)
                   | Returns u \<Rightarrow> (Aborted, snd m)))"

subsection \<open>The scheduler\<close>

text \<open>
  One pass of \<^verbatim>\<open>for token in tokens\<close>, each candidate with what the outside world answers
  while it is processed. An exception ends the pass.
\<close>

fun trade_tokens ::
  "bool \<Rightarrow> (checks \<times> venue \<times> token) list \<Rightarrow> state \<Rightarrow> decision list \<times> state" where
  "trade_tokens email_set [] s = ([], s)"
| "trade_tokens email_set ((c, v, t) # rest) s =
     (let r = trade_token email_set c v t s
      in if fst r = Aborted then ([Aborted], snd r)
         else let rs = trade_tokens email_set rest (snd r)
              in (fst r # fst rs, snd rs))"

fun task_token :: "task \<Rightarrow> token" where
  "task_token (Spawned t) = t"
| "task_token (Watching t p a) = t"

definition task_address :: "task \<Rightarrow> string" where
  "task_address tk = contract_address (task_token tk)"

definition remove_nth :: "nat \<Rightarrow> 'a list \<Rightarrow> 'a list" where
  "remove_nth i xs = take i xs @ drop (Suc i) xs"

text \<open>
  The event loop runs one coroutine at a time and switches only at an \<^verbatim>\<open>await\<close> that
  suspends. \<^verbatim>\<open>buy_token\<close> and \<^verbatim>\<open>sell_token\<close> never suspend, so the processing of one
  candidate (\<open>Discover\<close>) and one pass of the \<open>i\<close>-th monitor task through its loop
  (\<open>Wake\<close>) are the atomic steps. A task that slept stays in the list; a task that left
  its loop or crashed is gone. Nothing runs once the process has ended.
\<close>

datatype action = Discover checks venue token | Wake nat "real option outcome" venue

fun step :: "bool \<Rightarrow> action \<Rightarrow> state \<Rightarrow> state" where
  "step email_set (Discover c v t) s =
     (if halted s then s else snd (trade_token email_set c v t s))"
| "step email_set (Wake i asks v) s =
     (if \<not> halted s \<and> i < length (tasks s) then
        (let r = monitor_price email_set asks v (tasks s ! i) s;
             s' = snd r
         in case fst (fst r) of
              Waits \<Rightarrow> s'\<lparr>tasks := (tasks s')[i := snd (fst r)]\<rparr>
            | Sold b \<Rightarrow> s'\<lparr>tasks := remove_nth i (tasks s')\<rparr>
            | Crashed \<Rightarrow> s'\<lparr>tasks := remove_nth i (tasks s')\<rparr>)
      else s)"

fun run :: "bool \<Rightarrow> action list \<Rightarrow> state \<Rightarrow> state" where
  "run email_set [] s = s"
| "run email_set (a # as) s = run email_set as (step email_set a s)"

definition init :: state where
  "init = \<lparr>open_positions = Map.empty, trace = [], tasks = [], halted = False\<rparr>"

subsection \<open>Observations\<close>

text \<open>The orders handed to the venue between two states: the \<open>Submit\<close> events the later
  trace has beyond the length of the earlier one.\<close>

fun submitted :: "event list \<Rightarrow> order list" where
  "submitted [] = []"
| "submitted (Submit ord # es) = ord # submitted es"
| "submitted (Log l # es) = submitted es"
| "submitted (Email subject # es) = submitted es"

definition placed :: "state \<Rightarrow> state \<Rightarrow> order list" where
  "placed s s' = submitted (drop (length (trace s)) (trace s'))"

definition monitored :: "state \<Rightarrow> string \<Rightarrow> bool" where
  "monitored s a = (a \<in> task_address ` set (tasks s))"


text \<open>The venue accepts the sell of a position bought at \<open>p0\<close>: the ask reaches the
  target the code computes, the order is built, and the response has a result.\<close>

definition sell_accepted :: "venue \<Rightarrow> real \<Rightarrow> bool" where
  "sell_accepted v p0 \<longleftrightarrow>
     (case top_of_book v of
        Returns (Some q) \<Rightarrow>
          fmul p0 PROFIT_MULTIPLIER \<le> q \<and> make_order v = Returns () \<and>
          (case send_transaction v of Returns (Some sg) \<Rightarrow> True | _ \<Rightarrow> False)
      | _ \<Rightarrow> False)"

text \<open>The tasks have pairwise different addresses, each of their addresses has a position
  in the ledger, and with e-mail configured each of their tokens has a name that an
  e-mail can carry.\<close>

definition covered :: "bool \<Rightarrow> state \<Rightarrow> bool" where
  "covered email_set s \<longleftrightarrow> distinct (map task_address (tasks s)) \<and>
     (\<forall>tk\<in>set (tasks s). open_positions s (task_address tk) \<noteq> None \<and>
        (email_set \<longrightarrow> encodable (name (task_token tk))))"

subsection \<open>Sample inputs\<close>

definition token_A :: token where
  "token_A = \<lparr>name = ascii ''ExampleToken1'', contract_address = ''A'',
              launch_time = 0, market_cap = 7500, has_live_streams = False\<rparr>"

definition token_B :: token where
  "token_B = \<lparr>name = ascii ''ExampleToken2'', contract_address = ''B'',
              launch_time = 0, market_cap = 6000, has_live_streams = False\<rparr>"

text \<open>A candidate whose name is the single code point U+D800.\<close>

definition token_S :: token where
  "token_S = \<lparr>name = [55296], contract_address = ''S'',
              launch_time = 0, market_cap = 7500, has_live_streams = False\<rparr>"

text \<open>Six hours after the launch of the sample tokens, both services answering yes.\<close>

definition checks_6h :: checks where
  "checks_6h = \<lparr>utcnow = 21600000000, rug_pull_ok = True, social_media_ok = True\<rparr>"

text \<open>Twelve hours after the launch.\<close>

definition checks_12h :: checks where
  "checks_12h = \<lparr>utcnow = 43200000000, rug_pull_ok = True, social_media_ok = True\<rparr>"

definition venue_accepting :: "real \<Rightarrow> real \<Rightarrow> venue" where
  "venue_accepting price now =
     \<lparr>top_of_book = Returns (Some price), clock = now, make_order = Returns (),
      send_transaction = Returns (Some (ascii ''sig''))\<rparr>"

definition venue_failing :: "real \<Rightarrow> real \<Rightarrow> venue" where
  "venue_failing price now =
     \<lparr>top_of_book = Returns (Some price), clock = now, make_order = Returns (),
      send_transaction = Raises (ascii ''timeout'')\<rparr>"

text \<open>A venue that accepts and answers with a signature holding the code point U+D800.\<close>

definition venue_signing :: "real \<Rightarrow> real \<Rightarrow> venue" where
  "venue_signing price now =
     \<lparr>top_of_book = Returns (Some price), clock = now, make_order = Returns (),
      send_transaction = Returns (Some [55296])\<rparr>"

text \<open>A venue whose order cannot be built.\<close>

definition venue_unbuilt :: "real \<Rightarrow> real \<Rightarrow> venue" where
  "venue_unbuilt price now =
     \<lparr>top_of_book = Returns (Some price), clock = now,
      make_order = Raises (ascii ''bad order''),
      send_transaction = Returns (Some (ascii ''sig''))\<rparr>"

text \<open>The doubles that the literals \<^verbatim>\<open>0.01\<close>, \<^verbatim>\<open>0.02\<close>, \<^verbatim>\<open>0.03\<close>, \<^verbatim>\<open>0.04\<close>, \<^verbatim>\<open>0.05\<close> and
  \<^verbatim>\<open>0.09\<close> denote, and the double just below \<^verbatim>\<open>0.45\<close>, printed
  \<^verbatim>\<open>0.44999999999999996\<close>.\<close>

definition d001 :: real where "d001 = 5764607523034235 / 2 ^ 59"
definition d002 :: real where "d002 = 5764607523034235 / 2 ^ 58"
definition d003 :: real where "d003 = 8646911284551352 / 2 ^ 58"
definition d004 :: real where "d004 = 5764607523034235 / 2 ^ 57"
definition d005 :: real where "d005 = 7205759403792794 / 2 ^ 57"
definition d009 :: real where "d009 = 6485183463413514 / 2 ^ 56"
definition d045_below :: real where "d045_below = 8106479329266892 / 2 ^ 54"

text \<open>A state in which the first sample token is held, bought at 0.01, and its monitor
  task has been created.\<close>

definition holding_A :: state where
  "holding_A =
     \<lparr>open_positions = [''A'' \<mapsto> \<lparr>initial_price = d001, amount = 1\<rparr>],
      trace = [], tasks = [Spawned token_A], halted = False\<rparr>"

subsection \<open>Basic facts\<close>

lemma emit_fields [simp]:
  "open_positions (emit es s) = open_positions s"
  "trace (emit es s) = trace s @ es"
  "tasks (emit es s) = tasks s"
  "halted (emit es s) = halted s"
  by (simp_all add: emit_def)

lemma submitted_append [simp]: "submitted (xs @ ys) = submitted xs @ submitted ys"
  by (induction xs rule: submitted.induct) simp_all

lemma placed_emit [simp]: "placed s (emit es s) = submitted es"
  by (simp add: placed_def)

lemmas fl_eval = fl_def binade_def round_even_def pow2_def compute_bitlen Let_def

subsection \<open>The rounding function\<close>

text \<open>
  What the definitions of the rounding compute: \<open>round_even\<close> returns an integer at most
  one half away, \<open>binade\<close> the exponent of the power of two at or below the absolute
  value, and \<open>fl\<close> a value at most half a unit in the last place away.
\<close>

lemma round_even_nearest: "\<bar>x - real_of_int (round_even x)\<bar> \<le> 1 / 2"
proof -
  have "real_of_int \<lfloor>x\<rfloor> \<le> x" "x < real_of_int \<lfloor>x\<rfloor> + 1" by linarith+
  then show ?thesis by (auto simp: round_even_def Let_def)
qed

lemma pow2_pos [simp]: "0 < pow2 e"
  by (simp add: pow2_def)

lemma pow2_nonneg [simp]: "0 \<le> pow2 e"
  by (simp add: pow2_def)

lemma pow2_nonzero [simp]: "pow2 e \<noteq> 0"
  by (simp add: pow2_def)

lemma binade_bounds:
  assumes "x \<noteq> 0"
  shows "pow2 (binade x) \<le> \<bar>x\<bar> \<and> \<bar>x\<bar> < pow2 (binade x + 1)"
proof (cases "1 \<le> \<bar>x\<bar>")
  case True
  let ?n = "\<lfloor>\<bar>x\<bar>\<rfloor>"
  from True have n: "0 < ?n" by linarith
  from bitlen_bounds [OF n] have lo: "2 ^ nat (bitlen ?n - 1) \<le> ?n"
    and hi: "?n < 2 ^ nat (bitlen ?n)" by simp_all
  from n have b: "1 \<le> bitlen ?n" by (simp add: bitlen_alt_def)
  from lo have "real_of_int (2 ^ nat (bitlen ?n - 1)) \<le> real_of_int ?n" by linarith
  also have "\<dots> \<le> \<bar>x\<bar>" by linarith
  finally have l: "2 ^ nat (bitlen ?n - 1) \<le> \<bar>x\<bar>" by simp
  from hi have "?n + 1 \<le> 2 ^ nat (bitlen ?n)" by linarith
  then have "real_of_int (?n + 1) \<le> real_of_int (2 ^ nat (bitlen ?n))"
    by (simp only: of_int_le_iff)
  then have c1: "real_of_int ?n + 1 \<le> 2 ^ nat (bitlen ?n)" by simp
  have c2: "\<bar>x\<bar> < real_of_int ?n + 1" by linarith
  from c1 c2 have h: "\<bar>x\<bar> < 2 ^ nat (bitlen ?n)" by linarith
  from True b l h show ?thesis by (simp add: binade_def pow2_def)
next
  case False
  with assms have x: "0 < \<bar>x\<bar>" "\<bar>x\<bar> < 1" by simp_all
  let ?y = "1 / \<bar>x\<bar>"
  let ?m = "\<lceil>?y\<rceil> - 1"
  from x have y: "1 < ?y" by simp
  then have m: "0 < ?m" by linarith
  let ?k = "bitlen ?m"
  from m have k: "1 \<le> ?k" by (simp add: bitlen_alt_def)
  from bitlen_bounds [OF m] have lo: "2 ^ nat (?k - 1) \<le> ?m" and hi: "?m < 2 ^ nat ?k"
    by simp_all
  have my1: "real_of_int ?m < ?y" and my2: "?y \<le> real_of_int ?m + 1" by linarith+
  from lo have "real_of_int (2 ^ nat (?k - 1)) \<le> real_of_int ?m"
    by (simp only: of_int_le_iff)
  then have "2 ^ nat (?k - 1) \<le> real_of_int ?m" by simp
  with my1 have a: "2 ^ nat (?k - 1) < ?y" by linarith
  from hi have "?m + 1 \<le> 2 ^ nat ?k" by linarith
  then have "real_of_int (?m + 1) \<le> real_of_int (2 ^ nat ?k)"
    by (simp only: of_int_le_iff)
  then have "real_of_int ?m + 1 \<le> 2 ^ nat ?k" by simp
  with my2 have b: "?y \<le> 2 ^ nat ?k" by linarith
  from b x have l: "1 / 2 ^ nat ?k \<le> \<bar>x\<bar>"
    by (simp add: field_simps)
  from a x have h: "\<bar>x\<bar> < 1 / 2 ^ nat (?k - 1)"
    by (simp add: field_simps)
  have neg: "nat (- (1 - ?k)) = nat (?k - 1)" by simp
  show ?thesis
  proof (cases "?k = 1")
    case True
    with l h False show ?thesis by (simp add: binade_def pow2_def)
  next
    case ne: False
    with k have "1 < ?k" by simp
    with l h False neg show ?thesis
      by (simp add: binade_def pow2_def)
  qed
qed

lemma fl_nearest:
  "\<bar>fl x - x\<bar> \<le> pow2 (max (binade x) (- 1022) - 52) / 2"
proof (cases "x = 0")
  case True
  then show ?thesis by (simp add: fl_def)
next
  case False
  let ?u = "pow2 (max (binade x) (- 1022) - 52)"
  let ?m = "real_of_int (round_even (x / ?u))"
  have u: "0 < ?u" by simp
  have "\<bar>x / ?u - ?m\<bar> \<le> 1 / 2" by (rule round_even_nearest)
  then have "\<bar>x / ?u - ?m\<bar> * ?u \<le> 1 / 2 * ?u"
    using u by (intro mult_right_mono) simp_all
  moreover have "\<bar>x / ?u - ?m\<bar> * ?u = \<bar>x - ?m * ?u\<bar>"
  proof -
    have "\<bar>x / ?u - ?m\<bar> * ?u = \<bar>(x / ?u - ?m) * ?u\<bar>"
      using u by (simp add: abs_mult)
    also have "(x / ?u - ?m) * ?u = x - ?m * ?u"
      using u by (simp add: field_simps)
    finally show ?thesis .
  qed
  ultimately have "\<bar>x - ?m * ?u\<bar> \<le> ?u / 2" by simp
  with False show ?thesis by (simp add: fl_def Let_def abs_minus_commute)
qed

subsection \<open>Values at the sample inputs\<close>

lemma fl_hundredth: "fl (1 / 100) = d001"
  by (simp add: fl_eval d001_def)

lemma quantity_at_d001: "fdiv d001 d001 = 1"
  by (simp add: fdiv_def fl_eval d001_def)



lemma target_at_d001: "fmul d001 PROFIT_MULTIPLIER = d005"
  by (simp add: fmul_def fl_eval d001_def d005_def PROFIT_MULTIPLIER_def)

lemma target_at_d009: "fmul d009 PROFIT_MULTIPLIER = d045_below"
  by (simp add: fmul_def fl_eval d009_def d045_below_def PROFIT_MULTIPLIER_def)

lemma age_6h: "time_since_launch 21600000000 0 = 6"
  by (simp add: time_since_launch_def fdiv_def fl_eval)

lemma age_12h: "time_since_launch 43200000000 0 = 12"
  by (simp add: time_since_launch_def fdiv_def fl_eval)

lemma d_order: "d004 < d005" "d045_below < d009 * 5" "d001 \<noteq> 0" "d002 \<noteq> 0" "d003 \<noteq> 0"
  by (simp_all add: d001_def d002_def d003_def d004_def d005_def d009_def d045_below_def)





lemma init_fields [simp]:
  "open_positions init a = None" "tasks init = []" "halted init = False" "trace init = []"
  by (simp_all add: init_def)

lemma token_addresses [simp]:
  "contract_address token_A = ''A''" "contract_address token_B = ''B''"
  "contract_address token_S = ''S''"
  by (simp_all add: token_A_def token_B_def token_S_def)

lemma holding_A_fields [simp]:
  "open_positions holding_A ''A'' = Some \<lparr>initial_price = d001, amount = 1\<rparr>"
  by (simp add: holding_A_def)

subsection \<open>Events and e-mail\<close>

lemma emit_emit [simp]: "emit es' (emit es s) = emit (es @ es') s"
  by (simp add: emit_def)

lemma emit_update_ledger [simp]:
  "emit es (s\<lparr>open_positions := m\<rparr>) = (emit es s)\<lparr>open_positions := m\<rparr>"
  by (simp add: emit_def)

lemma placed_emit_ledger [simp]: "placed s ((emit es s)\<lparr>open_positions := m\<rparr>) = submitted es"
  by (simp add: placed_def)

lemma placed_emit_tasks [simp]: "placed s ((emit es s)\<lparr>tasks := m\<rparr>) = submitted es"
  by (simp add: placed_def)

lemma placed_emit_halted [simp]: "placed s ((emit es s)\<lparr>halted := m\<rparr>) = submitted es"
  by (simp add: placed_def)

lemma placed_append:
  "trace s' = trace s @ a \<Longrightarrow> trace s'' = trace s' @ b \<Longrightarrow>
     placed s s'' = submitted a @ placed s' s''"
  by (simp add: placed_def)

lemma encodable_ascii [simp]: "encodable (ascii cs)"
proof -
  have "mime_char (of_char c)" for c :: char
  proof -
    have "of_char c < (256 :: nat)" by simp
    then have "of_char c < (55296 :: nat)" by linarith
    then show ?thesis by (simp add: mime_char_def)
  qed
  then show ?thesis by (simp add: encodable_def ascii_def list_all_iff)
qed

lemma encodable_Nil [simp]: "encodable []"
  by (simp add: encodable_def)

lemma encodable_Cons [simp]: "encodable (c # s) \<longleftrightarrow> mime_char c \<and> encodable s"
  by (simp add: encodable_def)

lemma encodable_append [simp]: "encodable (a @ b) \<longleftrightarrow> encodable a \<and> encodable b"
  by (simp add: encodable_def)

lemma encodable_texts [simp]:
  "encodable zero_division" "encodable unicode_error" "encodable (key_error k)"
  by (simp_all add: zero_division_def unicode_error_def key_error_def mime_char_def)

lemma send_email_eq:
  "send_email email_set subject parts s =
     (if email_set \<and> \<not> list_all encodable parts then Raises unicode_error else Returns (),
      emit [Email subject] s)"
  by (simp add: send_email_def)

lemma buy_except_eq:
  "buy_except email_set t e s =
     (if email_set \<and> \<not> (encodable (name t) \<and> encodable e)
      then Raises unicode_error else Returns False,
      emit [Log ERROR, Email (ascii ''Buy Failed for '' @ name t)] s)"
  by (simp add: buy_except_def send_email_eq Let_def)

lemma sell_except_eq:
  "sell_except email_set t e s =
     (if email_set \<and> \<not> (encodable (name t) \<and> encodable e)
      then Raises unicode_error else Returns False,
      emit [Log ERROR, Email (ascii ''Sell Failed for '' @ name t)] s)"
  by (simp add: sell_except_def send_email_eq Let_def)

lemma monitor_except_eq:
  "monitor_except email_set t e s =
     (if email_set \<and> \<not> encodable e then Crashed else Waits,
      emit [Log ERROR, Email (ascii ''Price Monitoring Error for '' @ name t)] s)"
  by (simp add: monitor_except_def send_email_eq Let_def)

subsection \<open>Properties of buy\_token\<close>

lemma buy_token_ledger:
  "open_positions (snd (buy_token email_set v t a s)) =
     (case top_of_book v of
        Returns (Some price) \<Rightarrow>
          if price \<noteq> 0 \<and> make_order v = Returns () \<and>
             (case send_transaction v of Returns (Some sg) \<Rightarrow> True | _ \<Rightarrow> False)
          then (open_positions s)(contract_address t \<mapsto>
                  \<lparr>initial_price = price, amount = fdiv a price\<rparr>)
          else open_positions s
      | _ \<Rightarrow> open_positions s)"
  by (auto simp: buy_token_def buy_except_eq send_email_eq Let_def
           split: outcome.split option.split)

lemma buy_token_tasks [simp]: "tasks (snd (buy_token email_set v t a s)) = tasks s"
  by (simp add: buy_token_def buy_except_eq send_email_eq Let_def
           split: outcome.split option.split)

lemma buy_token_halted [simp]: "halted (snd (buy_token email_set v t a s)) = halted s"
  by (simp add: buy_token_def buy_except_eq send_email_eq Let_def
           split: outcome.split option.split)

lemma buy_token_True:
  "fst (buy_token email_set v t a s) = Returns True \<longleftrightarrow>
     (\<exists>price sg. top_of_book v = Returns (Some price) \<and> price \<noteq> 0 \<and>
        make_order v = Returns () \<and> send_transaction v = Returns (Some sg) \<and>
        (email_set \<longrightarrow> encodable (name t) \<and> encodable sg))"
  by (auto simp: buy_token_def buy_except_eq send_email_eq Let_def
           split: outcome.split option.split)

lemma buy_token_placed:
  "placed s (snd (buy_token email_set v t a s)) =
     (case top_of_book v of
        Returns (Some price) \<Rightarrow>
          if price \<noteq> 0 \<and> make_order v = Returns ()
          then [\<lparr>side = BUY, limit_price = price, max_quantity = fdiv a price,
                  client_id = py_int (clock v)\<rparr>]
          else []
      | _ \<Rightarrow> [])"
  by (auto simp: buy_token_def buy_except_eq send_email_eq Let_def
           split: outcome.split option.split)

lemma buy_token_placed_id:
  "ord \<in> set (placed s (snd (buy_token email_set v t a s))) \<Longrightarrow>
     client_id ord = py_int (clock v)"
  by (auto simp: buy_token_placed split: outcome.splits option.splits if_splits)

text \<open>
  Without e-mail configured, or with a name that an e-mail can carry, a best bid of price
  zero ends in the handler and \<^verbatim>\<open>buy_token\<close> returns \<^verbatim>\<open>False\<close>.
\<close>

lemma buy_token_no_mail:
  "\<not> email_set \<or> encodable (name t) \<Longrightarrow> top_of_book v = Returns (Some 0) \<Longrightarrow>
     buy_token email_set v t a s =
       (Returns False, emit [Log ERROR, Email (ascii ''Buy Failed for '' @ name t)] s)"
  by (auto simp: buy_token_def buy_except_eq)

text \<open>
  Claim C3. The claim fails on the code at this input: e-mail is configured, the venue
  accepts the order, and the name of the token holds the code point U+D800. The ledger is
  written, then building the "Bought" e-mail raises, the handler runs, building the
  "Buy Failed" e-mail raises too, and the exception leaves \<^verbatim>\<open>buy_token\<close> with the
  position in the ledger. With an ordinary name and the code point in the signature that
  the venue returns, the handler's e-mail goes through and \<^verbatim>\<open>buy_token\<close> returns
  \<^verbatim>\<open>False\<close>, again with the position in the ledger.
\<close>

theorem buy_mail_failure_after_insert:
  "fst (buy_token True (venue_accepting d001 100) token_S d001 init) = Raises unicode_error \<and>
   open_positions (snd (buy_token True (venue_accepting d001 100) token_S d001 init)) ''S''
     = Some \<lparr>initial_price = d001, amount = 1\<rparr> \<and>
   fst (buy_token True (venue_signing d001 100) token_A d001 init) = Returns False \<and>
   open_positions (snd (buy_token True (venue_signing d001 100) token_A d001 init)) ''A''
     = Some \<lparr>initial_price = d001, amount = 1\<rparr> \<and>
   open_positions init ''S'' = None \<and> open_positions init ''A'' = None"
  by (simp add: buy_token_def buy_except_eq send_email_eq Let_def venue_accepting_def
      venue_signing_def token_S_def token_A_def init_def d_order quantity_at_d001 mime_char_def)

text \<open>
  Claim C10. The claim fails on the code at this input: e-mail is configured, the name of
  the token holds the code point U+D800, and the best bid has price zero. The division
  raises and is caught, the handler writes its error line, and building the "Buy Failed"
  e-mail raises: the exception leaves \<^verbatim>\<open>buy_token\<close>. No order is placed and the ledger
  is unchanged.
\<close>

theorem buy_zero_price_raises:
  "buy_token True (venue_accepting 0 100) token_S d001 init =
     (Raises unicode_error,
      emit [Log ERROR, Email (ascii ''Buy Failed for '' @ name token_S)] init)"
  by (simp add: buy_token_def buy_except_eq venue_accepting_def token_S_def mime_char_def)

subsection \<open>Properties of sell\_token\<close>

lemma sell_token_below:
  "top_of_book v = Returns (Some q) \<Longrightarrow> q < fmul p0 PROFIT_MULTIPLIER \<Longrightarrow>
     sell_token email_set v t p0 amt s = (Returns False, emit [Log INFO] s)"
  by (simp add: sell_token_def)

lemma sell_token_placed:
  "placed s (snd (sell_token email_set v t p0 amt s)) =
     (case top_of_book v of
        Returns (Some q) \<Rightarrow>
          if fmul p0 PROFIT_MULTIPLIER \<le> q \<and> make_order v = Returns ()
          then [\<lparr>side = SELL, limit_price = q, max_quantity = amt,
                  client_id = py_int (clock v)\<rparr>]
          else []
      | _ \<Rightarrow> [])"
  by (auto simp: sell_token_def sell_except_eq send_email_eq Let_def
           split: outcome.split option.split)

lemma sell_token_ledger:
  "open_positions (snd (sell_token email_set v t p0 amt s)) =
     (if sell_accepted v p0 then (open_positions s)(contract_address t := None)
      else open_positions s)"
  by (auto simp: sell_token_def sell_except_eq send_email_eq sell_accepted_def Let_def
           split: outcome.split option.split)

lemma sell_token_tasks [simp]: "tasks (snd (sell_token email_set v t p0 amt s)) = tasks s"
  by (simp add: sell_token_def sell_except_eq send_email_eq Let_def
           split: outcome.split option.split)

lemma sell_token_halted [simp]: "halted (snd (sell_token email_set v t p0 amt s)) = halted s"
  by (simp add: sell_token_def sell_except_eq send_email_eq Let_def
           split: outcome.split option.split)

lemma sell_token_True:
  "fst (sell_token email_set v t p0 amt s) = Returns True \<longleftrightarrow>
     sell_accepted v p0 \<and> open_positions s (contract_address t) \<noteq> None \<and>
     (\<exists>sg. send_transaction v = Returns (Some sg) \<and>
        (email_set \<longrightarrow> encodable (name t) \<and> encodable sg))"
  by (auto simp: sell_token_def sell_except_eq send_email_eq sell_accepted_def Let_def
           split: outcome.split option.split)

lemma sell_token_Raises:
  "fst (sell_token email_set v t p0 amt s) = Raises e \<Longrightarrow>
   email_set \<longrightarrow> encodable (name t) \<Longrightarrow>
     open_positions (snd (sell_token email_set v t p0 amt s)) = open_positions s"
  by (auto simp: sell_token_def sell_except_eq send_email_eq Let_def
           split: outcome.splits option.splits if_splits)

lemma sell_token_trace:
  "\<exists>es. trace (snd (sell_token email_set v t p0 amt s)) = trace s @ es"
  by (auto simp: sell_token_def sell_except_eq send_email_eq Let_def
           split: outcome.split option.split)

lemma sell_token_placed_id:
  "ord \<in> set (placed s (snd (sell_token email_set v t p0 amt s))) \<Longrightarrow>
     client_id ord = py_int (clock v)"
  by (auto simp: sell_token_placed split: outcome.splits option.splits if_splits)

lemma monitor_iteration_placed:
  "top_of_book v = Returns (Some q) \<Longrightarrow>
     placed s (snd (monitor_iteration email_set (Returns (Some q)) v t p0 amt s)) =
       (if fmul p0 PROFIT_MULTIPLIER \<le> q \<and> make_order v = Returns ()
        then [\<lparr>side = SELL, limit_price = q, max_quantity = amt,
                client_id = py_int (clock v)\<rparr>]
        else [])"
proof (cases "fmul p0 PROFIT_MULTIPLIER \<le> q")
  case False
  then show ?thesis by (simp add: monitor_iteration_def Let_def)
next
  case True
  assume top: "top_of_book v = Returns (Some q)"
  let ?s1 = "emit [Log INFO, Log INFO] s"
  let ?r = "sell_token email_set v t p0 amt ?s1"
  obtain es where es: "trace (snd ?r) = trace ?s1 @ es"
    using sell_token_trace by blast
  have p: "placed ?s1 (snd ?r) =
       (if make_order v = Returns ()
        then [\<lparr>side = SELL, limit_price = q, max_quantity = amt,
                client_id = py_int (clock v)\<rparr>]
        else [])"
    using top True by (simp add: sell_token_placed)
  have s1: "trace ?s1 = trace s @ [Log INFO, Log INFO]" by simp
  show ?thesis
  proof (cases "fst ?r")
    case (Returns b)
    from placed_append [OF s1 es] p True Returns show ?thesis
      by (simp add: monitor_iteration_def Let_def)
  next
    case (Raises e)
    let ?s2 = "snd (monitor_except email_set t e (snd ?r))"
    have t2: "trace ?s2 = trace ?s1 @ (es @ [Log ERROR,
        Email (ascii ''Price Monitoring Error for '' @ name t)])"
      using es by (simp add: monitor_except_eq)
    from es p have se: "submitted es =
       (if make_order v = Returns ()
        then [\<lparr>side = SELL, limit_price = q, max_quantity = amt,
                client_id = py_int (clock v)\<rparr>]
        else [])"
      by (simp add: placed_def)
    have "placed s ?s2 = submitted [Log INFO, Log INFO] @ placed ?s1 ?s2"
      using s1 t2 by (rule placed_append)
    also have "placed ?s1 ?s2 = submitted es"
      using t2 by (simp add: placed_def)
    finally show ?thesis using se True Raises
      by (simp add: monitor_iteration_def Let_def)
  qed
qed

text \<open>
  Claim C4, amended. With a best ask \<open>q\<close> available, \<^verbatim>\<open>sell_token\<close> hands a sell order
  (at \<open>q\<close>, for the whole amount) to the venue exactly when \<open>q\<close> is at least the target
  the code computes, the boundary included, and the order can be built. The target is the
  floating-point product \<^verbatim>\<open>initial_price * PROFIT_MULTIPLIER\<close>, rounded to the nearest
  double. When \<open>q\<close> is below the target, \<^verbatim>\<open>sell_token\<close> returns \<^verbatim>\<open>False\<close>, the value it
  also returns on a failure, after a single line at level INFO and with no error line and
  no e-mail; it places no order and leaves the ledger unchanged. The monitor applies the
  same test to the ask it reads: below the target it waits; at or above it awaits
  \<^verbatim>\<open>sell_token\<close>, keeps the state that call leaves, and so hands the same order to the
  venue.
\<close>

theorem sell_boundary_rounded:
  "top_of_book v = Returns (Some q) \<Longrightarrow>
     placed s (snd (sell_token email_set v t p0 amt s)) =
       (if fmul p0 PROFIT_MULTIPLIER \<le> q \<and> make_order v = Returns ()
        then [\<lparr>side = SELL, limit_price = q, max_quantity = amt,
                client_id = py_int (clock v)\<rparr>]
        else []) \<and>
     (q < fmul p0 PROFIT_MULTIPLIER \<longrightarrow>
        sell_token email_set v t p0 amt s = (Returns False, emit [Log INFO] s) \<and>
        open_positions (snd (sell_token email_set v t p0 amt s)) = open_positions s \<and>
        monitor_iteration email_set (Returns (Some q)) v t p0 amt s
          = (Waits, emit [Log INFO] s)) \<and>
     (fmul p0 PROFIT_MULTIPLIER \<le> q \<longrightarrow>
        monitor_iteration email_set (Returns (Some q)) v t p0 amt s =
          (case fst (sell_token email_set v t p0 amt (emit [Log INFO, Log INFO] s)) of
             Raises e \<Rightarrow>
               monitor_except email_set t e
                 (snd (sell_token email_set v t p0 amt (emit [Log INFO, Log INFO] s)))
           | Returns b \<Rightarrow>
               (Sold b, snd (sell_token email_set v t p0 amt (emit [Log INFO, Log INFO] s))))) \<and>
     placed s (snd (monitor_iteration email_set (Returns (Some q)) v t p0 amt s)) =
       (if fmul p0 PROFIT_MULTIPLIER \<le> q \<and> make_order v = Returns ()
        then [\<lparr>side = SELL, limit_price = q, max_quantity = amt,
                client_id = py_int (clock v)\<rparr>]
        else [])"
proof (intro conjI impI)
  assume top: "top_of_book v = Returns (Some q)"
  show "placed s (snd (sell_token email_set v t p0 amt s)) =
       (if fmul p0 PROFIT_MULTIPLIER \<le> q \<and> make_order v = Returns ()
        then [\<lparr>side = SELL, limit_price = q, max_quantity = amt,
                client_id = py_int (clock v)\<rparr>]
        else [])"
    using top by (simp add: sell_token_placed)
  {
    assume below: "q < fmul p0 PROFIT_MULTIPLIER"
    from sell_token_below [OF top below]
    show b: "sell_token email_set v t p0 amt s = (Returns False, emit [Log INFO] s)" .
    from b show "open_positions (snd (sell_token email_set v t p0 amt s)) = open_positions s"
      by simp
    from below show "monitor_iteration email_set (Returns (Some q)) v t p0 amt s
          = (Waits, emit [Log INFO] s)"
      by (simp add: monitor_iteration_def Let_def)
  }
  {
    assume reach: "fmul p0 PROFIT_MULTIPLIER \<le> q"
    then show "monitor_iteration email_set (Returns (Some q)) v t p0 amt s =
          (case fst (sell_token email_set v t p0 amt (emit [Log INFO, Log INFO] s)) of
             Raises e \<Rightarrow>
               monitor_except email_set t e
                 (snd (sell_token email_set v t p0 amt (emit [Log INFO, Log INFO] s)))
           | Returns b \<Rightarrow>
               (Sold b, snd (sell_token email_set v t p0 amt (emit [Log INFO, Log INFO] s))))"
      by (simp add: monitor_iteration_def Let_def split: outcome.split)
  }
  show "placed s (snd (monitor_iteration email_set (Returns (Some q)) v t p0 amt s)) =
       (if fmul p0 PROFIT_MULTIPLIER \<le> q \<and> make_order v = Returns ()
        then [\<lparr>side = SELL, limit_price = q, max_quantity = amt,
                client_id = py_int (clock v)\<rparr>]
        else [])"
    using top by (rule monitor_iteration_placed)
qed

text \<open>
  Bought at 0.01: an ask of exactly 0.05, which is the target, places the order; an ask of
  0.04 does not.
\<close>

theorem sell_boundary_rounded_witness:
  "top_of_book (venue_accepting d005 100) = Returns (Some d005) \<and>
   fmul d001 PROFIT_MULTIPLIER \<le> d005 \<and>
   placed init (snd (sell_token False (venue_accepting d005 100) token_A d001 1 init)) =
     [\<lparr>side = SELL, limit_price = d005, max_quantity = 1, client_id = 100\<rparr>] \<and>
   placed init (snd (monitor_iteration False (Returns (Some d005)) (venue_accepting d005 100)
       token_A d001 1 init)) =
     [\<lparr>side = SELL, limit_price = d005, max_quantity = 1, client_id = 100\<rparr>] \<and>
   top_of_book (venue_accepting d004 100) = Returns (Some d004) \<and>
   d004 < fmul d001 PROFIT_MULTIPLIER \<and>
   sell_token False (venue_accepting d004 100) token_A d001 1 init
     = (Returns False, emit [Log INFO] init) \<and>
   monitor_iteration False (Returns (Some d004)) (venue_accepting d004 100) token_A d001 1 init
     = (Waits, emit [Log INFO] init)"
proof -
  have h5: "top_of_book (venue_accepting d005 100) = Returns (Some d005)"
    and h4: "top_of_book (venue_accepting d004 100) = Returns (Some d004)"
    and m: "make_order (venue_accepting d005 100) = Returns ()"
    and c: "py_int (clock (venue_accepting d005 100)) = 100"
    by (simp_all add: venue_accepting_def py_int_def)
  have r: "fmul d001 PROFIT_MULTIPLIER \<le> d005" and b: "d004 < fmul d001 PROFIT_MULTIPLIER"
    by (simp_all add: target_at_d001 d_order)
  note T5 = sell_boundary_rounded [OF h5, of init False token_A d001 1]
  note T4 = sell_boundary_rounded [OF h4, of init False token_A d001 1]
  from T5 [THEN conjunct1] r m c have p5: "placed init
      (snd (sell_token False (venue_accepting d005 100) token_A d001 1 init)) =
     [\<lparr>side = SELL, limit_price = d005, max_quantity = 1, client_id = 100\<rparr>]"
    by simp
  from T5 [THEN conjunct2, THEN conjunct2, THEN conjunct2] r m c
  have q5: "placed init (snd (monitor_iteration False (Returns (Some d005))
       (venue_accepting d005 100) token_A d001 1 init)) =
     [\<lparr>side = SELL, limit_price = d005, max_quantity = 1, client_id = 100\<rparr>]"
    by simp
  from T4 b have p4: "sell_token False (venue_accepting d004 100) token_A d001 1 init
     = (Returns False, emit [Log INFO] init)"
    and q4: "monitor_iteration False (Returns (Some d004)) (venue_accepting d004 100)
       token_A d001 1 init = (Waits, emit [Log INFO] init)"
    by blast+
  from h5 h4 r b p5 q5 p4 q4 show ?thesis by blast
qed

text \<open>
  The boundary is not the exact product. For a position bought at 0.09 the exact product
  of the price and 5 lies between two doubles and the code's target is the lower one,
  printed \<^verbatim>\<open>0.44999999999999996\<close>: an ask of that value is below the exact product, and
  the order is placed.
\<close>

theorem sell_below_exact_product:
  "d045_below < d009 * 5 \<and>
   placed init (snd (sell_token False (venue_accepting d045_below 100) token_A d009 1 init)) =
     [\<lparr>side = SELL, limit_price = d045_below, max_quantity = 1, client_id = 100\<rparr>]"
  by (simp add: sell_token_placed venue_accepting_def target_at_d009 d_order py_int_def)

text \<open>
  Claim C5. For an address that has a position in the ledger: when the venue accepts the
  sell (the ask reaches the target, the order is built, the response has a result) the
  entry of that address, and nothing else, is removed from the ledger; when it does not,
  the ledger is unchanged and \<^verbatim>\<open>sell_token\<close> does not return \<^verbatim>\<open>True\<close>.
  \<^verbatim>\<open>sell_token\<close> returns \<^verbatim>\<open>True\<close> exactly when the venue accepts and the "Sold" e-mail
  can be built, and then the entry is removed.
\<close>

theorem sell_removes_or_retains:
  "open_positions s (contract_address t) = Some p \<Longrightarrow>
     (sell_accepted v p0 \<longrightarrow>
        open_positions (snd (sell_token email_set v t p0 amt s)) =
          (open_positions s)(contract_address t := None)) \<and>
     (\<not> sell_accepted v p0 \<longrightarrow>
        open_positions (snd (sell_token email_set v t p0 amt s)) = open_positions s \<and>
        fst (sell_token email_set v t p0 amt s) \<noteq> Returns True) \<and>
     (fst (sell_token email_set v t p0 amt s) = Returns True \<longleftrightarrow>
        sell_accepted v p0 \<and>
        (\<exists>sg. send_transaction v = Returns (Some sg) \<and>
           (email_set \<longrightarrow> encodable (name t) \<and> encodable sg))) \<and>
     (fst (sell_token email_set v t p0 amt s) = Returns True \<longrightarrow>
        open_positions (snd (sell_token email_set v t p0 amt s)) =
          (open_positions s)(contract_address t := None))"
  using sell_token_True [of email_set v t p0 amt s] sell_token_ledger [of email_set v t p0 amt s]
  by auto

theorem sell_removes_or_retains_witness:
  "open_positions holding_A (contract_address token_A)
     = Some \<lparr>initial_price = d001, amount = 1\<rparr> \<and>
   sell_accepted (venue_accepting d005 100) d001 \<and>
   fst (sell_token False (venue_accepting d005 100) token_A d001 1 holding_A) = Returns True \<and>
   open_positions (snd (sell_token False (venue_accepting d005 100) token_A d001 1 holding_A))
     = (open_positions holding_A)(contract_address token_A := None) \<and>
   \<not> sell_accepted (venue_failing d005 100) d001 \<and>
   fst (sell_token False (venue_failing d005 100) token_A d001 1 holding_A) \<noteq> Returns True \<and>
   open_positions (snd (sell_token False (venue_failing d005 100) token_A d001 1 holding_A))
     = open_positions holding_A"
proof -
  have h: "open_positions holding_A (contract_address token_A)
             = Some \<lparr>initial_price = d001, amount = 1\<rparr>"
    by simp
  have ok: "sell_accepted (venue_accepting d005 100) d001"
    by (simp add: sell_accepted_def venue_accepting_def target_at_d001)
  have sg: "\<exists>sg. send_transaction (venue_accepting d005 100) = Returns (Some sg) \<and>
           (False \<longrightarrow> encodable (name token_A) \<and> encodable sg)"
    by (simp add: venue_accepting_def)
  have no: "\<not> sell_accepted (venue_failing d005 100) d001"
    by (simp add: sell_accepted_def venue_failing_def)
  show ?thesis
    using h ok sg no
      sell_removes_or_retains [OF h, of "venue_accepting d005 100" d001 False 1]
      sell_removes_or_retains [OF h, of "venue_failing d005 100" d001 False 1]
    by blast
qed

text \<open>
  Claim C9. For an address with no entry in the ledger, an ask that reaches the target and a
  venue that accepts the order, \<^verbatim>\<open>sell_token\<close> hands the order to the venue, then the
  \<^verbatim>\<open>del\<close> raises, the handler runs, and the call reports a failure: it returns
  \<^verbatim>\<open>False\<close>, or raises when the failure e-mail itself cannot be built. The trace holds
  the placed order followed by the error line and the failure e-mail, and the ledger is
  unchanged.
\<close>

theorem sell_absent_position_submits_then_fails:
  "open_positions s (contract_address t) = None \<Longrightarrow>
   top_of_book v = Returns (Some q) \<Longrightarrow> fmul p0 PROFIT_MULTIPLIER \<le> q \<Longrightarrow>
   make_order v = Returns () \<Longrightarrow> send_transaction v = Returns (Some sg) \<Longrightarrow>
     sell_token email_set v t p0 amt s =
       (if email_set \<and> \<not> encodable (name t) then Raises unicode_error else Returns False,
        emit [Log INFO,
              Submit \<lparr>side = SELL, limit_price = q, max_quantity = amt,
                      client_id = py_int (clock v)\<rparr>,
              Log INFO, Log ERROR, Email (ascii ''Sell Failed for '' @ name t)] s) \<and>
     fst (sell_token email_set v t p0 amt s) \<noteq> Returns True \<and>
     placed s (snd (sell_token email_set v t p0 amt s)) =
       [\<lparr>side = SELL, limit_price = q, max_quantity = amt, client_id = py_int (clock v)\<rparr>] \<and>
     open_positions (snd (sell_token email_set v t p0 amt s)) = open_positions s"
  by (simp add: sell_token_def sell_except_eq Let_def)

theorem sell_absent_position_submits_then_fails_witness:
  "open_positions init (contract_address token_A) = None \<and>
   top_of_book (venue_accepting d005 100) = Returns (Some d005) \<and>
   fmul d001 PROFIT_MULTIPLIER \<le> d005 \<and>
   make_order (venue_accepting d005 100) = Returns () \<and>
   send_transaction (venue_accepting d005 100) = Returns (Some (ascii ''sig'')) \<and>
   fst (sell_token False (venue_accepting d005 100) token_A d001 1 init) = Returns False \<and>
   placed init (snd (sell_token False (venue_accepting d005 100) token_A d001 1 init)) =
     [\<lparr>side = SELL, limit_price = d005, max_quantity = 1, client_id = 100\<rparr>] \<and>
   open_positions (snd (sell_token False (venue_accepting d005 100) token_A d001 1 init))
     = open_positions init"
proof -
  have h1: "open_positions init (contract_address token_A) = None" by simp
  have h2: "top_of_book (venue_accepting d005 100) = Returns (Some d005)"
    and h4: "make_order (venue_accepting d005 100) = Returns ()"
    and h5: "send_transaction (venue_accepting d005 100) = Returns (Some (ascii ''sig''))"
    and c: "py_int (clock (venue_accepting d005 100)) = 100"
    by (simp_all add: venue_accepting_def py_int_def)
  have h3: "fmul d001 PROFIT_MULTIPLIER \<le> d005" by (simp add: target_at_d001)
  note T = sell_absent_position_submits_then_fails [OF h1 h2 h3 h4 h5, of False 1]
  from T have r: "fst (sell_token False (venue_accepting d005 100) token_A d001 1 init)
      = Returns False" by simp
  from T [THEN conjunct2, THEN conjunct2, THEN conjunct1] c
  have p: "placed init (snd (sell_token False (venue_accepting d005 100) token_A d001 1 init)) =
     [\<lparr>side = SELL, limit_price = d005, max_quantity = 1, client_id = 100\<rparr>]" by simp
  from T have l: "open_positions
      (snd (sell_token False (venue_accepting d005 100) token_A d001 1 init))
     = open_positions init" by blast
  from h1 h2 h3 h4 h5 r p l show ?thesis by blast
qed

subsection \<open>Slippage arithmetic\<close>




subsection \<open>Client identifiers\<close>

lemma py_int_separated: "0 \<le> x \<Longrightarrow> x + 1 \<le> y \<Longrightarrow> py_int x < py_int y"
proof -
  assume a: "0 \<le> x" and b: "x + 1 \<le> y"
  have "\<lfloor>x\<rfloor> + 1 = \<lfloor>x + 1\<rfloor>" by simp
  also have "\<dots> \<le> \<lfloor>y\<rfloor>" using b by (rule floor_mono)
  finally show ?thesis using a b by (simp add: py_int_def)
qed

text \<open>
  Claim C8, amended. Every order that \<^verbatim>\<open>buy_token\<close> or \<^verbatim>\<open>sell_token\<close> hands to the venue
  carries as client identifier \<^verbatim>\<open>int(time.time())\<close>, the reading of the wall clock at that
  call truncated towards zero. Two submissions whose readings truncate to the same whole
  second carry the same identifier, whichever operations made them; two submissions at
  readings at least one second apart, the earlier one not before the epoch, carry
  different identifiers.
\<close>

theorem client_id_whole_seconds:
  "o1 \<in> set (placed s1 (snd (buy_token e1 v1 t1 a1 s1))) \<union>
        set (placed s1 (snd (sell_token e1 v1 t1 p1 m1 s1))) \<Longrightarrow>
   o2 \<in> set (placed s2 (snd (buy_token e2 v2 t2 a2 s2))) \<union>
        set (placed s2 (snd (sell_token e2 v2 t2 p2 m2 s2))) \<Longrightarrow>
     client_id o1 = py_int (clock v1) \<and> client_id o2 = py_int (clock v2) \<and>
     (py_int (clock v1) = py_int (clock v2) \<longrightarrow> client_id o1 = client_id o2) \<and>
     (0 \<le> clock v1 \<and> clock v1 + 1 \<le> clock v2 \<longrightarrow> client_id o1 < client_id o2)"
  using py_int_separated [of "clock v1" "clock v2"]
    buy_token_placed_id [of o1 s1 e1 v1 t1 a1] sell_token_placed_id [of o1 s1 e1 v1 t1 p1 m1]
    buy_token_placed_id [of o2 s2 e2 v2 t2 a2] sell_token_placed_id [of o2 s2 e2 v2 t2 p2 m2]
  by auto

theorem client_id_whole_seconds_witness:
  "\<lparr>side = BUY, limit_price = d001, max_quantity = 1, client_id = 100\<rparr>
     \<in> set (placed init (snd (buy_token False (venue_accepting d001 100) token_B d001 init))) \<and>
   \<lparr>side = SELL, limit_price = d005, max_quantity = 1, client_id = 101\<rparr>
     \<in> set (placed holding_A
          (snd (sell_token False (venue_accepting d005 101) token_A d001 1 holding_A))) \<and>
   0 \<le> clock (venue_accepting d001 100) \<and>
   clock (venue_accepting d001 100) + 1 \<le> clock (venue_accepting d005 101) \<and>
   client_id \<lparr>side = BUY, limit_price = d001, max_quantity = 1, client_id = 100\<rparr>
     < client_id \<lparr>side = SELL, limit_price = d005, max_quantity = 1, client_id = 101\<rparr>"
proof -
  let ?v1 = "venue_accepting d001 100" and ?v2 = "venue_accepting d005 101"
  let ?o1 = "\<lparr>side = BUY, limit_price = d001, max_quantity = 1, client_id = 100\<rparr>"
  let ?o2 = "\<lparr>side = SELL, limit_price = d005, max_quantity = 1, client_id = 101\<rparr>"
  have h1: "0 \<le> clock ?v1" and h2: "clock ?v1 + 1 \<le> clock ?v2"
    by (simp_all add: venue_accepting_def)
  have b: "?o1 \<in> set (placed init (snd (buy_token False ?v1 token_B d001 init)))"
    by (simp add: buy_token_placed venue_accepting_def py_int_def quantity_at_d001 d_order)
  have s: "?o2 \<in> set (placed holding_A (snd (sell_token False ?v2 token_A d001 1 holding_A)))"
    by (simp add: sell_token_placed venue_accepting_def py_int_def target_at_d001)
  from b have m1: "?o1 \<in> set (placed init (snd (buy_token False ?v1 token_B d001 init))) \<union>
      set (placed init (snd (sell_token False ?v1 token_B 1 1 init)))" by blast
  from s have m2: "?o2 \<in> set (placed holding_A (snd (buy_token False ?v2 token_A 1 holding_A))) \<union>
      set (placed holding_A (snd (sell_token False ?v2 token_A d001 1 holding_A)))" by blast
  from client_id_whole_seconds [OF m1 m2] h1 h2
  have "client_id ?o1 < client_id ?o2" by blast
  with h1 h2 b s show ?thesis by blast
qed

text \<open>
  The identifiers are not unique per submission: a buy placed at 100.2 seconds and a sell
  placed at 100.7 seconds, two different orders by two different operations, both carry
  the identifier 100.
\<close>

theorem client_id_collision:
  "placed init (snd (buy_token False (venue_accepting d001 (1002 / 10)) token_B d001 init)) =
     [\<lparr>side = BUY, limit_price = d001, max_quantity = 1, client_id = 100\<rparr>] \<and>
   placed holding_A
     (snd (sell_token False (venue_accepting d005 (1007 / 10)) token_A d001 1 holding_A)) =
     [\<lparr>side = SELL, limit_price = d005, max_quantity = 1, client_id = 100\<rparr>] \<and>
   clock (venue_accepting d001 (1002 / 10)) \<noteq> clock (venue_accepting d005 (1007 / 10))"
  by (simp add: buy_token_placed sell_token_placed venue_accepting_def py_int_def
      quantity_at_d001 target_at_d001 d_order)

subsection \<open>The discovery loop\<close>

lemma trade_token_held:
  "open_positions s (contract_address t) \<noteq> None \<Longrightarrow>
     \<exists>r. trade_token email_set c v t s = (Skipped r, emit [Log INFO] s)"
  by (simp add: trade_token_def Let_def)

lemma trade_token_halted_or:
  "tasks (snd (trade_token email_set c v t s)) =
     (if fst (trade_token email_set c v t s) = Traded True then tasks s @ [Spawned t]
      else tasks s)"
  by (simp add: trade_token_def Let_def send_email_eq split: outcome.split)

lemma trade_token_ledger:
  "open_positions (snd (trade_token email_set c v t s)) = open_positions s \<or>
   open_positions s (contract_address t) = None \<and>
   (\<exists>p. open_positions (snd (trade_token email_set c v t s)) =
      (open_positions s)(contract_address t \<mapsto> p))"
proof -
  let ?b = "buy_token email_set v t (fl (1 / 100)) s"
  have "open_positions (snd ?b) = open_positions s \<or>
        (\<exists>p. open_positions (snd ?b) = (open_positions s)(contract_address t \<mapsto> p))"
    by (auto simp: buy_token_ledger split: outcome.split option.split)
  then show ?thesis
    by (auto simp: trade_token_def Let_def send_email_eq split: outcome.split)
qed

lemma trade_token_bought:
  "fst (trade_token email_set c v t s) = Traded True \<Longrightarrow>
     open_positions s (contract_address t) = None \<and>
     (email_set \<longrightarrow> encodable (name t)) \<and>
     (\<exists>p. open_positions (snd (trade_token email_set c v t s)) =
        (open_positions s)(contract_address t \<mapsto> p))"
proof -
  assume a: "fst (trade_token email_set c v t s) = Traded True"
  let ?b = "buy_token email_set v t (fl (1 / 100)) s"
  from a have free: "open_positions s (contract_address t) = None"
    and b: "fst ?b = Returns True"
    and l: "open_positions (snd (trade_token email_set c v t s)) = open_positions (snd ?b)"
    by (auto simp: trade_token_def Let_def send_email_eq split: if_splits outcome.splits)
  from b have n: "email_set \<longrightarrow> encodable (name t)"
    and "\<exists>p. open_positions (snd ?b) = (open_positions s)(contract_address t \<mapsto> p)"
    by (auto simp: buy_token_True buy_token_ledger)
  with free l show ?thesis by simp
qed

lemma trade_token_placed_held:
  "open_positions s (contract_address t) \<noteq> None \<Longrightarrow>
     placed s (snd (trade_token email_set c v t s)) = []"
  using trade_token_held [of s t email_set c v] by auto


lemma trade_A_from_init:
  "trade_token False checks_6h (venue_accepting d001 100) token_A init =
     (Traded True,
      (emit [Log INFO,
             Submit \<lparr>side = BUY, limit_price = d001, max_quantity = 1, client_id = 100\<rparr>,
             Log INFO, Email (ascii ''Bought '' @ name token_A)] init)
        \<lparr>open_positions := [''A'' \<mapsto> \<lparr>initial_price = d001, amount = 1\<rparr>],
         tasks := [Spawned token_A]\<rparr>)"
  by (simp add: trade_token_def checks_6h_def token_A_def age_6h fl_hundredth buy_token_def
      send_email_eq venue_accepting_def quantity_at_d001 d_order init_def Let_def py_int_def
      emit_def)



text \<open>
  Claim C6. A candidate whose age in hours, \<^verbatim>\<open>(utcnow - launch_time)\<close> in seconds over
  3600, is outside the interval from 5 to 10 takes the first \<^verbatim>\<open>continue\<close> of the loop,
  whatever its other fields and whatever the services and the venue would answer:
  \<^verbatim>\<open>buy_token\<close> is not called, no order is placed, the ledger and the tasks are unchanged.
\<close>

theorem skip_outside_age_window:
  "\<not> (5 \<le> time_since_launch (utcnow c) (launch_time t) \<and>
       time_since_launch (utcnow c) (launch_time t) \<le> 10) \<Longrightarrow>
     trade_token email_set c v t s = (Skipped LaunchTime, emit [Log INFO] s) \<and>
     placed s (snd (trade_token email_set c v t s)) = [] \<and>
     open_positions (snd (trade_token email_set c v t s)) = open_positions s \<and>
     tasks (snd (trade_token email_set c v t s)) = tasks s"
  by (simp add: trade_token_def Let_def)

theorem skip_outside_age_window_witness:
  "\<not> (5 \<le> time_since_launch (utcnow checks_12h) (launch_time token_A) \<and>
       time_since_launch (utcnow checks_12h) (launch_time token_A) \<le> 10) \<and>
   trade_token False checks_12h (venue_accepting d001 100) token_A init
     = (Skipped LaunchTime, emit [Log INFO] init)"
proof -
  have h: "\<not> (5 \<le> time_since_launch (utcnow checks_12h) (launch_time token_A) \<and>
       time_since_launch (utcnow checks_12h) (launch_time token_A) \<le> 10)"
    by (simp add: checks_12h_def token_A_def age_12h)
  show ?thesis
    using h skip_outside_age_window [OF h, of False "venue_accepting d001 100" init]
    by simp
qed




subsection \<open>Monitors and the ledger\<close>

lemma monitor_iteration_tasks [simp]:
  "tasks (snd (monitor_iteration email_set asks v t p0 amt s)) = tasks s"
  by (simp add: monitor_iteration_def monitor_except_eq Let_def
           split: outcome.split option.split)

lemma monitor_iteration_halted [simp]:
  "halted (snd (monitor_iteration email_set asks v t p0 amt s)) = halted s"
  by (simp add: monitor_iteration_def monitor_except_eq Let_def
           split: outcome.split option.split)

lemma monitor_iteration_Sold_True:
  "fst (monitor_iteration email_set asks v t p0 amt s) = Sold True \<Longrightarrow>
     open_positions (snd (monitor_iteration email_set asks v t p0 amt s))
       (contract_address t) = None"
  by (auto simp: monitor_iteration_def monitor_except_eq Let_def sell_token_True
        sell_token_ledger split: outcome.splits option.splits if_splits)

lemma monitor_iteration_ledger:
  "email_set \<longrightarrow> encodable (name t) \<Longrightarrow>
     open_positions (snd (monitor_iteration email_set asks v t p0 amt s)) = open_positions s \<or>
     (\<exists>b. fst (monitor_iteration email_set asks v t p0 amt s) = Sold b) \<and>
     open_positions (snd (monitor_iteration email_set asks v t p0 amt s)) =
       (open_positions s)(contract_address t := None)"
proof (cases asks)
  case (Raises e)
  then show ?thesis by (simp add: monitor_iteration_def monitor_except_eq)
next
  case (Returns a)
  assume n: "email_set \<longrightarrow> encodable (name t)"
  show ?thesis
  proof (cases a)
    case None
    with Returns show ?thesis by (simp add: monitor_iteration_def)
  next
    case (Some q)
    let ?r = "sell_token email_set v t p0 amt (emit [Log INFO, Log INFO] s)"
    show ?thesis
    proof (cases "fmul p0 PROFIT_MULTIPLIER \<le> q")
      case False
      with Returns Some show ?thesis by (simp add: monitor_iteration_def Let_def)
    next
      case True
      show ?thesis
      proof (cases "fst ?r")
        case (Raises e)
        from sell_token_Raises [OF Raises n]
        have "open_positions (snd ?r) = open_positions s" by simp
        with Returns Some True Raises show ?thesis
          by (simp add: monitor_iteration_def Let_def monitor_except_eq)
      next
        case (Returns b)
        have "open_positions (snd ?r) = open_positions s \<or>
              open_positions (snd ?r) = (open_positions s)(contract_address t := None)"
          by (simp add: sell_token_ledger)
        with \<open>asks = Returns a\<close> Some True Returns show ?thesis
          by (simp add: monitor_iteration_def Let_def)
      qed
    qed
  qed
qed

lemma monitor_price_tasks [simp]:
  "tasks (snd (monitor_price email_set asks v tk s)) = tasks s"
  by (cases tk) (simp_all add: Let_def split: option.split)

lemma monitor_price_halted [simp]:
  "halted (snd (monitor_price email_set asks v tk s)) = halted s"
  by (cases tk) (simp_all add: Let_def split: option.split)

lemma monitor_price_token [simp]:
  "task_token (snd (fst (monitor_price email_set asks v tk s))) = task_token tk"
  by (cases tk) (simp_all add: Let_def split: option.split)

lemma monitor_price_Sold_True:
  "fst (fst (monitor_price email_set asks v tk s)) = Sold True \<Longrightarrow>
     open_positions (snd (monitor_price email_set asks v tk s)) (task_address tk) = None"
  by (cases tk)
    (auto simp: Let_def task_address_def monitor_iteration_Sold_True split: option.splits)

lemma monitor_price_ledger:
  assumes "email_set \<longrightarrow> encodable (name (task_token tk))"
  shows "open_positions (snd (monitor_price email_set asks v tk s)) = open_positions s \<or>
     (\<exists>b. fst (fst (monitor_price email_set asks v tk s)) = Sold b) \<and>
     open_positions (snd (monitor_price email_set asks v tk s)) =
       (open_positions s)(task_address tk := None)"
proof (cases tk)
  case (Spawned t)
  show ?thesis
  proof (cases "open_positions s (contract_address t)")
    case None
    with Spawned show ?thesis by simp
  next
    case (Some p)
    from assms Spawned have "email_set \<longrightarrow> encodable (name t)" by simp
    from monitor_iteration_ledger [OF this, of asks v "initial_price p" "amount p"
        "emit [Log INFO] s"]
    show ?thesis using Spawned Some by (simp add: Let_def task_address_def)
  qed
next
  case (Watching t p0 amt)
  from assms Watching have "email_set \<longrightarrow> encodable (name t)" by simp
  from monitor_iteration_ledger [OF this, of asks v p0 amt s]
  show ?thesis using Watching by (simp add: Let_def task_address_def)
qed

lemma remove_nth_subset: "set (remove_nth i xs) \<subseteq> set xs"
  by (auto simp: remove_nth_def dest: in_set_takeD in_set_dropD)

lemma remove_nth_distinct:
  assumes d: "distinct (map f xs)"
  shows "distinct (map f (remove_nth i xs))"
proof -
  let ?ys = "map f xs"
  have "set (take i ?ys) \<inter> set (drop (Suc i) ?ys) = {}"
    using d by (rule set_take_disj_set_drop_if_distinct) simp
  with d have "distinct (take i ?ys @ drop (Suc i) ?ys)" by simp
  then show ?thesis by (simp add: remove_nth_def take_map drop_map)
qed

lemma remove_nth_others:
  assumes d: "distinct (map f xs)" and i: "i < length xs" and x: "x \<in> set (remove_nth i xs)"
  shows "f x \<noteq> f (xs ! i)"
proof -
  let ?ys = "map f xs"
  from i have "?ys = take i ?ys @ ?ys ! i # drop (Suc i) ?ys"
    by (intro id_take_nth_drop) simp
  with d have "distinct (take i ?ys @ ?ys ! i # drop (Suc i) ?ys)" by simp
  then have "?ys ! i \<notin> set (take i ?ys) \<union> set (drop (Suc i) ?ys)" by auto
  moreover from x have "f x \<in> set (take i ?ys) \<union> set (drop (Suc i) ?ys)"
    by (auto simp: remove_nth_def take_map drop_map)
  ultimately show ?thesis using i by auto
qed

lemma covered_init: "covered email_set init"
  by (simp add: covered_def init_def)

lemma covered_discover:
  assumes c: "covered email_set s"
  shows "covered email_set (snd (trade_token email_set c' v t s))"
proof (cases "fst (trade_token email_set c' v t s) = Traded True")
  case False
  then have tk: "tasks (snd (trade_token email_set c' v t s)) = tasks s"
    by (simp add: trade_token_halted_or)
  from trade_token_ledger [of email_set c' v t s]
  have "\<forall>a. open_positions s a \<noteq> None \<longrightarrow>
          open_positions (snd (trade_token email_set c' v t s)) a \<noteq> None"
    by auto
  with c tk show ?thesis by (simp add: covered_def)
next
  case True
  from trade_token_bought [OF True] obtain p where
    free: "open_positions s (contract_address t) = None" and
    n: "email_set \<longrightarrow> encodable (name t)" and
    led: "open_positions (snd (trade_token email_set c' v t s)) =
            (open_positions s)(contract_address t \<mapsto> p)"
    by blast
  from True have tk: "tasks (snd (trade_token email_set c' v t s)) = tasks s @ [Spawned t]"
    by (simp add: trade_token_halted_or)
  from c free have "contract_address t \<notin> task_address ` set (tasks s)"
    by (auto simp: covered_def)
  with c tk led n show ?thesis
    by (auto simp: covered_def task_address_def)
qed

lemma covered_wake:
  assumes c: "covered email_set s"
  shows "covered email_set (step email_set (Wake i asks v) s)"
proof (cases "\<not> halted s \<and> i < length (tasks s)")
  case False
  with c show ?thesis by auto
next
  case True
  then have i: "i < length (tasks s)" and run: "\<not> halted s" by simp_all
  let ?tk = "tasks s ! i"
  let ?r = "monitor_price email_set asks v ?tk s"
  from c have d: "distinct (map task_address (tasks s))"
    and h: "\<forall>tk\<in>set (tasks s). open_positions s (task_address tk) \<noteq> None"
    and e: "\<forall>tk\<in>set (tasks s). email_set \<longrightarrow> encodable (name (task_token tk))"
    by (simp_all add: covered_def)
  from i e have en: "email_set \<longrightarrow> encodable (name (task_token ?tk))" by simp
  note led = monitor_price_ledger [OF en, of asks v s]
  show ?thesis
  proof (cases "fst (fst ?r)")
    case Waits
    have same: "task_token (snd (fst ?r)) = task_token ?tk" by simp
    have m: "map task_token ((tasks s)[i := snd (fst ?r)]) = map task_token (tasks s)"
      using i same by (simp add: map_update list_update_same_conv)
    from led Waits have l: "open_positions (snd ?r) = open_positions s" by simp
    have a: "map task_address ((tasks s)[i := snd (fst ?r)]) = map task_address (tasks s)"
    proof -
      have "map task_address xs = map contract_address (map task_token xs)" for xs
        by (simp add: task_address_def)
      with m show ?thesis by metis
    qed
    have "\<forall>tk\<in>set ((tasks s)[i := snd (fst ?r)]).
            open_positions s (task_address tk) \<noteq> None \<and>
            (email_set \<longrightarrow> encodable (name (task_token tk)))"
    proof
      fix tk assume "tk \<in> set ((tasks s)[i := snd (fst ?r)])"
      then have "task_token tk \<in> set (map task_token ((tasks s)[i := snd (fst ?r)]))"
        by simp
      with m have "task_token tk \<in> task_token ` set (tasks s)" by simp
      then obtain tk' where "tk' \<in> set (tasks s)" and "task_token tk = task_token tk'"
        by auto
      with h e show "open_positions s (task_address tk) \<noteq> None \<and>
            (email_set \<longrightarrow> encodable (name (task_token tk)))"
        by (auto simp: task_address_def)
    qed
    with d a l i run Waits show ?thesis by (simp add: covered_def Let_def)
  next
    case (Sold b)
    have "\<forall>tk\<in>set (remove_nth i (tasks s)).
            open_positions (snd ?r) (task_address tk) \<noteq> None \<and>
            (email_set \<longrightarrow> encodable (name (task_token tk)))"
    proof
      fix tk assume tk: "tk \<in> set (remove_nth i (tasks s))"
      from remove_nth_others [OF d i tk] have ne: "task_address tk \<noteq> task_address ?tk" .
      from tk have mem: "tk \<in> set (tasks s)" using remove_nth_subset by fastforce
      with h have "open_positions s (task_address tk) \<noteq> None" by simp
      with led ne have "open_positions (snd ?r) (task_address tk) \<noteq> None" by auto
      with mem e show "open_positions (snd ?r) (task_address tk) \<noteq> None \<and>
            (email_set \<longrightarrow> encodable (name (task_token tk)))" by simp
    qed
    with remove_nth_distinct [OF d, of i] i run Sold show ?thesis
      by (simp add: covered_def Let_def)
  next
    case Crashed
    from led Crashed have l: "open_positions (snd ?r) = open_positions s" by simp
    have "\<forall>tk\<in>set (remove_nth i (tasks s)).
            open_positions s (task_address tk) \<noteq> None \<and>
            (email_set \<longrightarrow> encodable (name (task_token tk)))"
      using h e remove_nth_subset by fastforce
    with remove_nth_distinct [OF d, of i] i run Crashed l show ?thesis
      by (simp add: covered_def Let_def)
  qed
qed

lemma covered_step: "covered email_set s \<Longrightarrow> covered email_set (step email_set a s)"
  by (cases a) (simp_all add: covered_discover covered_wake del: step.simps(2))

lemma covered_run: "covered email_set s \<Longrightarrow> covered email_set (run email_set acts s)"
  by (induction acts arbitrary: s) (simp_all add: covered_step)

text \<open>
  Claim C2, amended. In every state the bot reaches from its start, an address that has a
  monitor task has a position in the ledger, and no two tasks watch the same address.
  When a monitor leaves its loop after a sell that returned \<^verbatim>\<open>True\<close>, the entry of its
  address is gone from the ledger.
\<close>

theorem monitors_hold_positions:
  "(monitored (run email_set acts init) a \<longrightarrow>
      open_positions (run email_set acts init) a \<noteq> None) \<and>
   distinct (map task_address (tasks (run email_set acts init))) \<and>
   (fst (fst (monitor_price email_set asks v tk s)) = Sold True \<longrightarrow>
      open_positions (snd (monitor_price email_set asks v tk s)) (task_address tk) = None)"
proof -
  have "covered email_set (run email_set acts init)"
    using covered_init by (rule covered_run)
  then show ?thesis
    by (auto simp: covered_def monitored_def monitor_price_Sold_True)
qed

theorem monitors_hold_positions_witness:
  "monitored (run False [Discover checks_6h (venue_accepting d001 100) token_A] init) ''A'' \<and>
   open_positions (run False [Discover checks_6h (venue_accepting d001 100) token_A] init) ''A''
     \<noteq> None \<and>
   fst (fst (monitor_price False (Returns (Some d005)) (venue_accepting d005 200)
      (Spawned token_A) holding_A)) = Sold True \<and>
   open_positions (snd (monitor_price False (Returns (Some d005)) (venue_accepting d005 200)
      (Spawned token_A) holding_A)) (task_address (Spawned token_A)) = None"
proof -
  have m: "monitored (run False [Discover checks_6h (venue_accepting d001 100) token_A] init) ''A''"
    by (simp add: trade_A_from_init monitored_def task_address_def)
  have t: "fst (fst (monitor_price False (Returns (Some d005)) (venue_accepting d005 200)
      (Spawned token_A) holding_A)) = Sold True"
    by (simp add: monitor_iteration_def sell_token_def send_email_eq venue_accepting_def
        holding_A_def token_A_def target_at_d001 Let_def)
  show ?thesis
    using m t
      monitors_hold_positions [of False
        "[Discover checks_6h (venue_accepting d001 100) token_A]"
        "''A''" "Returns (Some d005)" "venue_accepting d005 200" "Spawned token_A" holding_A]
    by blast
qed

text \<open>
  The converse fails. The first sample token is bought and its monitor created; on its
  first run the monitor sees the ask at the target and awaits \<^verbatim>\<open>sell_token\<close>, whose
  \<^verbatim>\<open>send_transaction\<close> raises; the monitor leaves its loop all the same. The position is
  still in the ledger and no task watches it.
\<close>

theorem position_outlives_monitor:
  "open_positions
     (run False [Discover checks_6h (venue_accepting d001 100) token_A,
                 Wake 0 (Returns (Some d005)) (venue_failing d005 200)] init) ''A''
     = Some \<lparr>initial_price = d001, amount = 1\<rparr> \<and>
   \<not> monitored
     (run False [Discover checks_6h (venue_accepting d001 100) token_A,
                 Wake 0 (Returns (Some d005)) (venue_failing d005 200)] init) ''A''"
  by (simp add: trade_A_from_init monitored_def monitor_iteration_def sell_token_def
      sell_except_eq venue_failing_def target_at_d001 remove_nth_def Let_def)

end
